theory Spec2Isabelle
  imports Complex_Main "HOL-Library.Multiset"
begin

section \<open>JavaScript numbers\<close>

text \<open>
  A JavaScript number is modelled as an extended rational: every finite double is a
  rational, and the three special values are kept because the program's guards and
  clamps treat them differently. Rounding to 53 bits, overflow of finite operands and
  the sign of zero are not represented: finite arithmetic is exact.
\<close>

datatype jsnum = Num rat | PInf | NInf | NaN

fun js_neg :: "jsnum \<Rightarrow> jsnum" where
  "js_neg (Num a) = Num (- a)"
| "js_neg PInf = NInf"
| "js_neg NInf = PInf"
| "js_neg NaN = NaN"

fun js_add :: "jsnum \<Rightarrow> jsnum \<Rightarrow> jsnum" where
  "js_add (Num a) (Num b) = Num (a + b)"
| "js_add (Num a) PInf = PInf"
| "js_add (Num a) NInf = NInf"
| "js_add PInf (Num b) = PInf"
| "js_add PInf PInf = PInf"
| "js_add PInf NInf = NaN"
| "js_add NInf (Num b) = NInf"
| "js_add NInf PInf = NaN"
| "js_add NInf NInf = NInf"
| "js_add NaN y = NaN"
| "js_add x NaN = NaN"

definition js_sub :: "jsnum \<Rightarrow> jsnum \<Rightarrow> jsnum" where
  "js_sub x y = js_add x (js_neg y)"

fun js_mul :: "jsnum \<Rightarrow> jsnum \<Rightarrow> jsnum" where
  "js_mul (Num a) (Num b) = Num (a * b)"
| "js_mul (Num a) PInf = (if a = 0 then NaN else if 0 < a then PInf else NInf)"
| "js_mul (Num a) NInf = (if a = 0 then NaN else if 0 < a then NInf else PInf)"
| "js_mul PInf (Num b) = (if b = 0 then NaN else if 0 < b then PInf else NInf)"
| "js_mul NInf (Num b) = (if b = 0 then NaN else if 0 < b then NInf else PInf)"
| "js_mul PInf PInf = PInf"
| "js_mul PInf NInf = NInf"
| "js_mul NInf PInf = NInf"
| "js_mul NInf NInf = PInf"
| "js_mul NaN y = NaN"
| "js_mul x NaN = NaN"

fun js_div :: "jsnum \<Rightarrow> jsnum \<Rightarrow> jsnum" where
  "js_div (Num a) (Num b) =
     (if b = 0 then (if a = 0 then NaN else if 0 < a then PInf else NInf)
      else Num (a / b))"
| "js_div (Num a) PInf = Num 0"
| "js_div (Num a) NInf = Num 0"
| "js_div PInf (Num b) = (if 0 \<le> b then PInf else NInf)"
| "js_div NInf (Num b) = (if 0 \<le> b then NInf else PInf)"
| "js_div PInf PInf = NaN"
| "js_div PInf NInf = NaN"
| "js_div NInf PInf = NaN"
| "js_div NInf NInf = NaN"
| "js_div NaN y = NaN"
| "js_div x NaN = NaN"

text \<open>The comparison \<open>x > y\<close>: false as soon as one side is NaN.\<close>

fun js_gt :: "jsnum \<Rightarrow> jsnum \<Rightarrow> bool" where
  "js_gt (Num a) (Num b) = (b < a)"
| "js_gt (Num a) PInf = False"
| "js_gt (Num a) NInf = True"
| "js_gt PInf (Num b) = True"
| "js_gt PInf PInf = False"
| "js_gt PInf NInf = True"
| "js_gt NInf y = False"
| "js_gt NaN y = False"
| "js_gt x NaN = False"

definition js_lt :: "jsnum \<Rightarrow> jsnum \<Rightarrow> bool" where
  "js_lt x y = js_gt y x"

text \<open>\<open>x <= y\<close> and \<open>x >= y\<close>: equal values compare true, NaN never does.\<close>

definition js_le :: "jsnum \<Rightarrow> jsnum \<Rightarrow> bool" where
  "js_le x y = (x \<noteq> NaN \<and> y \<noteq> NaN \<and> \<not> js_gt x y)"

definition js_ge :: "jsnum \<Rightarrow> jsnum \<Rightarrow> bool" where
  "js_ge x y = js_le y x"

text \<open>\<open>Math.max\<close> and \<open>Math.min\<close> of two arguments: NaN if either is NaN.\<close>

definition js_max :: "jsnum \<Rightarrow> jsnum \<Rightarrow> jsnum" where
  "js_max x y = (if x = NaN \<or> y = NaN then NaN else if js_gt x y then x else y)"

definition js_min :: "jsnum \<Rightarrow> jsnum \<Rightarrow> jsnum" where
  "js_min x y = (if x = NaN \<or> y = NaN then NaN else if js_gt x y then y else x)"

text \<open>\<open>Math.round\<close>: the nearest integer, halves upwards; special values pass through.\<close>

fun js_round :: "jsnum \<Rightarrow> jsnum" where
  "js_round (Num a) = Num (of_int \<lfloor>a + 1 / 2\<rfloor>)"
| "js_round x = x"

text \<open>Truthiness of a number (\<open>x || d\<close>, \<open>x && ...\<close>): zero and NaN are falsy.\<close>

fun truthy :: "jsnum \<Rightarrow> bool" where
  "truthy (Num a) = (a \<noteq> 0)"
| "truthy NaN = False"
| "truthy x = True"

definition js_or :: "jsnum \<Rightarrow> jsnum \<Rightarrow> jsnum" where
  "js_or x d = (if truthy x then x else d)"

text \<open>An optional number field read as \<open>x || d\<close>: undefined is falsy too.\<close>

fun opt_or :: "jsnum option \<Rightarrow> jsnum \<Rightarrow> jsnum" where
  "opt_or None d = d"
| "opt_or (Some x) d = js_or x d"

text \<open>An optional string read as \<open>s || d\<close>: undefined and the empty string are falsy.\<close>

fun str_or :: "string option \<Rightarrow> string \<Rightarrow> string" where
  "str_or None d = d"
| "str_or (Some s) d = (if s = [] then d else s)"

definition startsWith :: "string \<Rightarrow> string \<Rightarrow> bool" where
  "startsWith s p = (take (length p) s = p)"

fun includes_str :: "string \<Rightarrow> string \<Rightarrow> bool" where
  "includes_str [] p = (p = [])"
| "includes_str (c # s) p = (startsWith (c # s) p \<or> includes_str s p)"

definition sum_js :: "jsnum list \<Rightarrow> jsnum" where
  "sum_js xs = foldl js_add (Num 0) xs"

section \<open>Array.prototype.sort\<close>

text \<open>
  \<open>xs.sort(cmp)\<close> is stable (ECMAScript 2019): for a consistent comparator the result
  is the one stable arrangement, which insertion from the right computes. An element
  moves past those it compares greater than (\<open>cmp x y > 0\<close>).
\<close>

fun js_insert :: "('a \<Rightarrow> 'a \<Rightarrow> int) \<Rightarrow> 'a \<Rightarrow> 'a list \<Rightarrow> 'a list" where
  "js_insert cmp x [] = [x]"
| "js_insert cmp x (y # ys) = (if 0 < cmp x y then y # js_insert cmp x ys else x # y # ys)"

definition js_sort :: "('a \<Rightarrow> 'a \<Rightarrow> int) \<Rightarrow> 'a list \<Rightarrow> 'a list" where
  "js_sort cmp xs = foldr (js_insert cmp) xs []"

section \<open>Data model (types/index.ts)\<close>

record SwapTransaction =
  hash :: string
  timestamp :: string
  from_token :: string
  to_token :: string
  from_token_address :: string
  to_token_address :: string
  from_amount :: jsnum
  to_amount :: jsnum
  gas_used :: jsnum
  gas_price :: jsnum
  dex :: string
  usd_value :: "jsnum option"
  slippage :: "jsnum option"

text \<open>
  The quote as \<open>getOneInchQuote\<close> returns it. The two numeric texts are held by the
  value the caller parses from them: \<open>parseFloat(toAmount)\<close>, \<open>parseInt(estimatedGas)\<close>.
  The optional \<open>fromTokenAmount\<close>, an echo of the request's amount text that nothing
  reads, is left out.
\<close>

record OneInchQuote =
  toAmount :: jsnum
  estimatedGas :: jsnum
  protocols :: "string list list"
  toTokenAmount :: jsnum

text \<open>
  A result row as the provider sends it. A text field is \<open>None\<close> when absent; a numeric
  field is \<open>None\<close> when absent or falsy, and otherwise holds the value that
  \<open>parseFloat\<close> (for \<open>gas_used\<close>: \<open>parseInt\<close>) reads from it, NaN for an unreadable text.
\<close>

record DuneSwapRow =
  tx_hash :: "string option"
  block_time :: "string option"
  token_sold_symbol :: "string option"
  token_bought_symbol :: "string option"
  token_sold_address :: "string option"
  token_bought_address :: "string option"
  token_sold_amount :: "jsnum option"
  token_bought_amount :: "jsnum option"
  amount_usd :: "jsnum option"
  row_gas_used :: "jsnum option"
  row_gas_price :: "jsnum option"
  project :: "string option"

record Comparison =
  txHash :: string
  actualRoute :: string
  optimalRoute :: string
  gasDifference :: jsnum
  slippageDifference :: jsnum
  actualAmountOut :: jsnum
  optimalAmountOut :: jsnum

text \<open>
  The texts of the recommendations and notes, one constructor per message of the source;
  a number that the source formats into the text (\<open>toFixed\<close>) is carried unformatted.
\<close>

datatype recommendation =
    NoTransactionsForAnalysis
  | UseAggregatorForGas
  | PotentialGasSavings jsnum jsnum
  | GasAlreadyEfficient
  | UpgradeToUniswapV3
  | HighSlippage jsnum
  | AdjustSlippageTolerance
  | ManySuboptimalRoutes
  | HighValueTrades
  | StartMakingSwaps
  | EfficiencyBelowAverage
  | RoomForImprovement
  | ExcellentEfficiency
  | TimeLowerGasPeriods
  | GreatGasTiming
  | HighVolumeTools
  | BatchSmallTrades
  | DiversifyDexes
  | ConsiderDCA

datatype opportunity =
    NoTransactionsFound
  | NoComparisonData
  | CouldHaveSavedGas nat
  | CouldHaveBetterRates nat
  | RoutingGenerallyOptimal

record ComparisonResult =
  success :: bool
  wallet :: string
  totalTransactions :: nat
  totalActualGas :: jsnum
  totalOptimalGas :: jsnum
  gasSavingsPotential :: jsnum
  averageSlippageActual :: jsnum
  recommendations :: "recommendation list"
  detailedComparisons :: "Comparison list"

record Summary =
  totalSwaps :: nat
  totalVolumeUSD :: jsnum
  averageGasUsed :: jsnum
  mostUsedDEX :: string
  efficiencyScore :: jsnum

record GasAnalysis =
  totalGasSpent :: jsnum
  averageGasPrice :: jsnum
  potentialSavings :: jsnum
  savingsPercentage :: jsnum

record RoutingAnalysis =
  optimalRoutes :: nat
  suboptimalRoutes :: nat
  missedOpportunities :: "opportunity list"

record TimeRange =
  range_from :: string
  range_to :: string

record SwapReportData =
  report_success :: bool
  report_wallet :: string
  reportGeneratedAt :: string
  summary :: Summary
  gasAnalysis :: GasAnalysis
  routingAnalysis :: RoutingAnalysis
  report_recommendations :: "recommendation list"
  timeRange :: TimeRange

section \<open>Errors, the outside world, and the effects of a run\<close>

text \<open>
  One constructor per \<open>throw\<close> of the source. A \<open>catch\<close> that rethrows with a prefix
  wraps the caught error: \<open>FetchFailed e\<close> is "Failed to fetch transaction data: e".
\<close>

datatype error =
    InvalidFormat
  | InvalidLength
  | MissingKey
  | Transport string
  | ExecutionFailed
  | ExecutionTimeout
  | FetchFailed error
  | RateLimited
  | QuoteFailed string
  | ComparisonFailed error
  | ReportFailed error

datatype poll_response =
    PollError string
  | PollData string "DuneSwapRow list option"

record QuoteData =
  data_toAmount :: "jsnum option"
  data_toTokenAmount :: "jsnum option"
  data_estimatedGas :: "jsnum option"
  data_gas :: "jsnum option"
  data_protocols :: "string list list option"

datatype quote_http =
    QuoteOk QuoteData
  | QuoteStatus nat string
  | QuoteNetError string

record quote_args =
  arg_fromTokenAddress :: string
  arg_toTokenAddress :: string
  arg_amount :: jsnum
  arg_fromTokenSymbol :: string
  arg_toTokenSymbol :: string

text \<open>
  Everything the program reads from outside. The providers answer by the number of the
  call (the \<open>n\<close>-th query submission, its \<open>k\<close>-th poll, the \<open>n\<close>-th quote, the \<open>n\<close>-th price
  request) and by what is asked. \<open>random n i\<close> is the value \<open>Math.random()\<close> returns
  while row \<open>i\<close> of the \<open>n\<close>-th query's result is mapped. \<open>date_ms\<close> is
  \<open>new Date(s).getTime()\<close> for a date text that parses, and \<open>iso_of_ms\<close> is
  \<open>new Date(ms).toISOString()\<close>.
\<close>

record world =
  api_key :: "string option"
  exec_api :: "nat \<Rightarrow> string \<Rightarrow> nat \<Rightarrow> string + string"
  poll_api :: "nat \<Rightarrow> string \<Rightarrow> nat \<Rightarrow> poll_response"
  random :: "nat \<Rightarrow> nat \<Rightarrow> rat"
  now :: string
  date_ms :: "string \<Rightarrow> int"
  iso_of_ms :: "int \<Rightarrow> string"
  quote_api :: "nat \<Rightarrow> quote_args \<Rightarrow> quote_http"
  price_api :: "nat \<Rightarrow> string \<Rightarrow> jsnum option"

text \<open>
  What a run does to the outside, in order: the submission of query \<open>n\<close>, a poll of
  query \<open>n\<close> at attempt \<open>k\<close>, a quote request, a price request, and a wait of so many
  milliseconds. The state of a run counts the calls made so far and holds this trace.
\<close>

datatype event =
    DuneExecute nat
  | DunePoll nat nat
  | QuoteCall nat
  | PriceCall nat
  | Sleep nat

fun is_network :: "event \<Rightarrow> bool" where
  "is_network (Sleep ms) = False"
| "is_network e = True"

record state =
  dune_calls :: nat
  quote_calls :: nat
  price_calls :: nat
  trace :: "event list"

definition init :: state where
  "init = \<lparr>dune_calls = 0, quote_calls = 0, price_calls = 0, trace = []\<rparr>"

definition emit :: "event list \<Rightarrow> state \<Rightarrow> state" where
  "emit es s = s\<lparr>trace := trace s @ es\<rparr>"

section \<open>Transaction History Client (utils/api.ts)\<close>

text \<open>\<open>parseFloat(field || '0')\<close> on a numeric field of a row.\<close>

fun parsed_or_zero :: "jsnum option \<Rightarrow> jsnum" where
  "parsed_or_zero None = Num 0"
| "parsed_or_zero (Some v) = v"

text \<open>
  The placeholder slippage: \<open>rnd\<close> is the value of \<open>Math.random()\<close>, which is only
  drawn when neither amount is zero.
\<close>

definition calculateSlippage ::
  "rat \<Rightarrow> jsnum \<Rightarrow> jsnum \<Rightarrow> string option \<Rightarrow> string option \<Rightarrow> jsnum" where
  "calculateSlippage rnd amountIn amountOut tokenInSymbol tokenOutSymbol =
     (if amountIn = Num 0 \<or> amountOut = Num 0 then Num 0
      else let estimatedSlippage = js_mul (Num rnd) (Num 2)
           in js_div (js_round (js_mul estimatedSlippage (Num 100))) (Num 100))"

definition mapRow :: "world \<Rightarrow> nat \<Rightarrow> nat \<Rightarrow> DuneSwapRow \<Rightarrow> SwapTransaction" where
  "mapRow w n i row =
     \<lparr>hash = str_or (tx_hash row) ''unknown'',
      timestamp = str_or (block_time row) (now w),
      from_token = str_or (token_sold_symbol row) ''UNKNOWN'',
      to_token = str_or (token_bought_symbol row) ''UNKNOWN'',
      from_token_address = str_or (token_sold_address row) [],
      to_token_address = str_or (token_bought_address row) [],
      from_amount = parsed_or_zero (token_sold_amount row),
      to_amount = parsed_or_zero (token_bought_amount row),
      gas_used = parsed_or_zero (row_gas_used row),
      gas_price = parsed_or_zero (row_gas_price row),
      dex = str_or (project row) ''unknown'',
      usd_value = Some (parsed_or_zero (amount_usd row)),
      slippage = Some (calculateSlippage (random w n i)
        (parsed_or_zero (token_sold_amount row)) (parsed_or_zero (token_bought_amount row))
        (token_sold_symbol row) (token_bought_symbol row))\<rparr>"

definition mapRows :: "world \<Rightarrow> nat \<Rightarrow> DuneSwapRow list \<Rightarrow> SwapTransaction list" where
  "mapRows w n rows = map (\<lambda>(i, row). mapRow w n i row) (zip [0..<length rows] rows)"

definition maxAttempts :: nat where
  "maxAttempts = 30"

text \<open>
  The poll loop of \<open>getDuneData\<close>, entered with \<open>attempts = 0\<close>: wait two seconds, ask
  for the results, return on a completed state, throw on a failed one, count the
  attempt otherwise. A request that fails throws its own error.
\<close>

function poll ::
  "world \<Rightarrow> nat \<Rightarrow> string \<Rightarrow> nat \<Rightarrow> state \<Rightarrow> (error + SwapTransaction list) \<times> state" where
  "poll w n executionId attempts s =
     (if attempts < maxAttempts then
        (let s1 = emit [Sleep 2000, DunePoll n attempts] s in
         case poll_api w n executionId attempts of
           PollError msg \<Rightarrow> (Inl (Transport msg), s1)
         | PollData st result \<Rightarrow>
             if st = ''QUERY_STATE_COMPLETED''
             then (Inr (mapRows w n (case result of None \<Rightarrow> [] | Some rows \<Rightarrow> rows)), s1)
             else if st = ''QUERY_STATE_FAILED'' then (Inl ExecutionFailed, s1)
             else poll w n executionId (attempts + 1) s1)
      else (Inl ExecutionTimeout, s))"
  by pat_completeness auto
termination
  by (relation "measure (\<lambda>(w, n, executionId, attempts, s). maxAttempts - attempts)") auto

declare poll.simps [simp del]

definition getDuneData ::
  "world \<Rightarrow> state \<Rightarrow> string \<Rightarrow> nat \<Rightarrow> (error + SwapTransaction list) \<times> state" where
  "getDuneData w s walletAddress limit =
     (if str_or (api_key w) [] = [] then (Inl (FetchFailed MissingKey), s)
      else
        let n = dune_calls s;
            s1 = emit [DuneExecute n] (s\<lparr>dune_calls := n + 1\<rparr>)
        in case exec_api w n walletAddress limit of
             Inl msg \<Rightarrow> (Inl (FetchFailed (Transport msg)), s1)
           | Inr executionId \<Rightarrow>
               (case poll w n executionId 0 s1 of
                  (Inl e, s2) \<Rightarrow> (Inl (FetchFailed e), s2)
                | (Inr transactions, s2) \<Rightarrow> (Inr transactions, s2)))"

section \<open>Quote and Price Client (utils/api.ts)\<close>

text \<open>
  \<open>getOneInchQuote\<close>: the request (address resolution, amount scaling) is built from the
  arguments, and \<open>quote_api\<close> is the provider's answer to it. A status of 429 is the
  rate-limit error; any other failure is the generic quote error.
\<close>

fun first_truthy :: "jsnum option \<Rightarrow> jsnum option \<Rightarrow> jsnum \<Rightarrow> jsnum" where
  "first_truthy (Some a) b d = a"
| "first_truthy None (Some b) d = b"
| "first_truthy None None d = d"

definition getOneInchQuote ::
  "world \<Rightarrow> state \<Rightarrow> quote_args \<Rightarrow> (error + OneInchQuote) \<times> state" where
  "getOneInchQuote w s args =
     (let n = quote_calls s;
          s1 = emit [QuoteCall n] (s\<lparr>quote_calls := n + 1\<rparr>)
      in case quote_api w n args of
           QuoteOk d \<Rightarrow>
             (Inr \<lparr>toAmount = first_truthy (data_toAmount d) (data_toTokenAmount d) (Num 0),
                   estimatedGas = first_truthy (data_estimatedGas d) (data_gas d) (Num 150000),
                   protocols = (case data_protocols d of
                                  None \<Rightarrow> [[''1inch Aggregated'']] | Some ps \<Rightarrow> ps),
                   toTokenAmount = first_truthy (data_toAmount d) (data_toTokenAmount d) (Num 0)\<rparr>,
              s1)
         | QuoteStatus code msg \<Rightarrow>
             (if code = 429 then Inl RateLimited else Inl (QuoteFailed msg), s1)
         | QuoteNetError msg \<Rightarrow> (Inl (QuoteFailed msg), s1))"

text \<open>
  \<open>getTokenPrice\<close> never throws: a failed request, a missing entry and a falsy price all
  give 0.
\<close>

definition getTokenPrice :: "world \<Rightarrow> state \<Rightarrow> string \<Rightarrow> jsnum \<times> state" where
  "getTokenPrice w s tokenSymbol =
     (let n = price_calls s;
          s1 = emit [PriceCall n] (s\<lparr>price_calls := n + 1\<rparr>)
      in (opt_or (price_api w n tokenSymbol) (Num 0), s1))"

section \<open>Transaction Retrieval (tools/transactions.ts)\<close>

definition valid_tx :: "SwapTransaction \<Rightarrow> bool" where
  "valid_tx tx =
     (hash tx \<noteq> [] \<and> from_token tx \<noteq> [] \<and> to_token tx \<noteq> [] \<and>
      js_gt (from_amount tx) (Num 0) \<and> js_gt (to_amount tx) (Num 0) \<and>
      js_gt (gas_used tx) (Num 0))"

text \<open>
  The comparator of the sort, \<open>new Date(b.timestamp).getTime() - new Date(a.timestamp).getTime()\<close>.
  The time of a timestamp is an integer: an unparsable date text has the time NaN, the
  comparator is then inconsistent and ECMAScript leaves the order to the implementation,
  so such timestamps are outside the model.
\<close>

definition by_recency :: "world \<Rightarrow> SwapTransaction \<Rightarrow> SwapTransaction \<Rightarrow> int" where
  "by_recency w a b = date_ms w (timestamp b) - date_ms w (timestamp a)"

definition getUserTransactions ::
  "world \<Rightarrow> state \<Rightarrow> string \<Rightarrow> nat \<Rightarrow> (error + SwapTransaction list) \<times> state" where
  "getUserTransactions w s walletAddress limit =
     (if walletAddress = [] \<or> \<not> startsWith walletAddress ''0x'' then (Inl InvalidFormat, s)
      else if length walletAddress \<noteq> 42 then (Inl InvalidLength, s)
      else case getDuneData w s walletAddress limit of
             (Inl e, s1) \<Rightarrow> (Inl (FetchFailed e), s1)
           | (Inr transactions, s1) \<Rightarrow>
               (let validTransactions = filter valid_tx transactions
                in (Inr (js_sort (by_recency w) validTransactions), s1)))"

section \<open>Comparison Engine (tools/comparison.ts)\<close>

text \<open>
  A tally object keyed by venue name. \<open>Object.entries\<close> lists the keys in the order of
  their first insertion; this holds for the names a venue has (a key that is a canonical
  array index, or that names a member of \<open>Object.prototype\<close>, is outside the model).
\<close>

fun bump :: "string \<Rightarrow> (string \<times> nat) list \<Rightarrow> (string \<times> nat) list" where
  "bump k [] = [(k, 1)]"
| "bump k ((k', c) # kvs) = (if k = k' then (k', c + 1) # kvs else (k', c) # bump k kvs)"

definition dexUsage :: "SwapTransaction list \<Rightarrow> (string \<times> nat) list" where
  "dexUsage transactions = foldl (\<lambda>acc tx. bump (dex tx) acc) [] transactions"

definition by_count :: "string \<times> nat \<Rightarrow> string \<times> nat \<Rightarrow> int" where
  "by_count x y = int (snd y) - int (snd x)"

definition mostUsedDex :: "SwapTransaction list \<Rightarrow> (string \<times> nat) option" where
  "mostUsedDex transactions =
     (case js_sort by_count (dexUsage transactions) of [] \<Rightarrow> None | e # es \<Rightarrow> Some e)"

definition generateRecommendations ::
  "SwapTransaction list \<Rightarrow> jsnum \<Rightarrow> jsnum \<Rightarrow> jsnum \<Rightarrow> Comparison list \<Rightarrow> recommendation list" where
  "generateRecommendations transactions gasSavings totalActual averageSlippage comparisons =
     (if js_gt gasSavings (Num 0)
      then (let savingsPercentage = js_mul (js_div gasSavings totalActual) (Num 100)
            in [UseAggregatorForGas,
                PotentialGasSavings (js_div gasSavings (Num 1000000000)) savingsPercentage])
      else [GasAlreadyEfficient])
     @ (case mostUsedDex transactions of
          None \<Rightarrow> []
        | Some e \<Rightarrow> if fst e = ''Uniswap V2'' then [UpgradeToUniswapV3] else [])
     @ (if js_gt averageSlippage (Num 1) then [HighSlippage averageSlippage]
        else if js_gt averageSlippage (Num (1 / 2)) then [AdjustSlippageTolerance]
        else [])
     @ (let suboptimal = length (filter (\<lambda>c. js_gt (gasDifference c) (Num 0)) comparisons)
        in if js_gt (Num (of_nat suboptimal))
                    (js_mul (Num (of_nat (length comparisons))) (Num (3 / 10)))
           then [ManySuboptimalRoutes] else [])
     @ (let highValueTrades =
              length (filter (\<lambda>tx. js_gt (opt_or (usd_value tx) (Num 0)) (Num 1000)) transactions)
        in if 0 < highValueTrades then [HighValueTrades] else [])"

text \<open>The variables the comparison loop updates.\<close>

record loop_vars =
  comparisons_v :: "Comparison list"
  totalActualGas_v :: jsnum
  totalOptimalGas_v :: jsnum
  totalSlippage_v :: jsnum
  validComparisons_v :: nat

definition loop_vars0 :: loop_vars where
  "loop_vars0 =
     \<lparr>comparisons_v = [], totalActualGas_v = Num 0, totalOptimalGas_v = Num 0,
      totalSlippage_v = Num 0, validComparisons_v = 0\<rparr>"

definition quote_args_of :: "SwapTransaction \<Rightarrow> quote_args" where
  "quote_args_of tx =
     \<lparr>arg_fromTokenAddress = from_token_address tx,
      arg_toTokenAddress = to_token_address tx,
      arg_amount = js_mul (from_amount tx) (Num (10 ^ 18)),
      arg_fromTokenSymbol = from_token tx,
      arg_toTokenSymbol = to_token tx\<rparr>"

definition optimalRouteOf :: "OneInchQuote \<Rightarrow> string" where
  "optimalRouteOf quote =
     (case protocols quote of
        [] \<Rightarrow> ''1inch Aggregated''
      | p # ps \<Rightarrow> (case p of
                     [] \<Rightarrow> ''1inch Aggregated''
                   | x # xs \<Rightarrow> if x = [] then ''1inch Aggregated'' else x))"

text \<open>
  One pass of the loop body: a transaction without both token addresses is skipped, a
  failed quote is caught and leaves the variables as they were, and a successful
  comparison is followed by a pause of 100 ms.
\<close>

definition compare_tx :: "world \<Rightarrow> SwapTransaction \<Rightarrow> loop_vars \<times> state \<Rightarrow> loop_vars \<times> state" where
  "compare_tx w tx vs =
     (case vs of (v, s) \<Rightarrow>
        if from_token_address tx = [] \<or> to_token_address tx = [] then (v, s)
        else case getOneInchQuote w s (quote_args_of tx) of
               (Inl e, s1) \<Rightarrow> (v, s1)
             | (Inr quote, s1) \<Rightarrow>
                 (let actualGas = js_mul (gas_used tx) (gas_price tx);
                      optimalGas = js_mul (estimatedGas quote) (gas_price tx);
                      actualSlippage = opt_or (slippage tx) (Num 0);
                      optimalOut = js_div (toAmount quote) (Num (10 ^ 18))
                  in (\<lparr>comparisons_v = comparisons_v v @
                          [\<lparr>txHash = hash tx,
                            actualRoute = dex tx,
                            optimalRoute = optimalRouteOf quote,
                            gasDifference = js_sub actualGas optimalGas,
                            slippageDifference = actualSlippage,
                            actualAmountOut = to_amount tx,
                            optimalAmountOut = optimalOut\<rparr>],
                        totalActualGas_v = js_add (totalActualGas_v v) actualGas,
                        totalOptimalGas_v = js_add (totalOptimalGas_v v) optimalGas,
                        totalSlippage_v = js_add (totalSlippage_v v) actualSlippage,
                        validComparisons_v = validComparisons_v v + 1\<rparr>,
                      emit [Sleep 100] s1)))"

definition compare_loop ::
  "world \<Rightarrow> SwapTransaction list \<Rightarrow> loop_vars \<times> state \<Rightarrow> loop_vars \<times> state" where
  "compare_loop w transactions vs = fold (compare_tx w) transactions vs"

definition compareWithOneInch ::
  "world \<Rightarrow> state \<Rightarrow> string \<Rightarrow> (error + ComparisonResult) \<times> state" where
  "compareWithOneInch w s walletAddress =
     (if walletAddress = [] \<or> \<not> startsWith walletAddress ''0x'' then (Inl InvalidFormat, s)
      else case getDuneData w s walletAddress 10 of
             (Inl e, s1) \<Rightarrow> (Inl (ComparisonFailed e), s1)
           | (Inr transactions, s1) \<Rightarrow>
               if transactions = [] then
                 (Inr \<lparr>success = True, wallet = walletAddress, totalTransactions = 0,
                       totalActualGas = Num 0, totalOptimalGas = Num 0,
                       gasSavingsPotential = Num 0, averageSlippageActual = Num 0,
                       recommendations = [NoTransactionsForAnalysis],
                       detailedComparisons = []\<rparr>, s1)
               else
                 (case compare_loop w transactions (loop_vars0, s1) of (v, s2) \<Rightarrow>
                    let gasSavings =
                          js_max (Num 0) (js_sub (totalActualGas_v v) (totalOptimalGas_v v));
                        averageSlippage =
                          (if 0 < validComparisons_v v
                           then js_div (totalSlippage_v v) (Num (of_nat (validComparisons_v v)))
                           else Num 0)
                    in (Inr \<lparr>success = True, wallet = walletAddress,
                             totalTransactions = length transactions,
                             totalActualGas = totalActualGas_v v,
                             totalOptimalGas = totalOptimalGas_v v,
                             gasSavingsPotential = gasSavings,
                             averageSlippageActual =
                               js_div (js_round (js_mul averageSlippage (Num 100))) (Num 100),
                             recommendations =
                               generateRecommendations transactions gasSavings
                                 (totalActualGas_v v) averageSlippage (comparisons_v v),
                             detailedComparisons = comparisons_v v\<rparr>, s2)))"

section \<open>Report Generator (tools/report.ts)\<close>

definition volume_tx :: "world \<Rightarrow> SwapTransaction \<Rightarrow> jsnum \<times> state \<Rightarrow> jsnum \<times> state" where
  "volume_tx w tx ts =
     (case ts of (totalVolume, s) \<Rightarrow>
        if (case usd_value tx of None \<Rightarrow> False | Some u \<Rightarrow> truthy u \<and> js_gt u (Num 0))
        then (js_add totalVolume (opt_or (usd_value tx) (Num 0)), s)
        else case getTokenPrice w s (from_token tx) of (tokenPrice, s1) \<Rightarrow>
               if js_gt tokenPrice (Num 0)
               then (js_add totalVolume (js_mul (from_amount tx) tokenPrice), s1)
               else (totalVolume, s1))"

definition calculateRealVolumeUSD ::
  "world \<Rightarrow> state \<Rightarrow> SwapTransaction list \<Rightarrow> jsnum \<times> state" where
  "calculateRealVolumeUSD w s transactions = fold (volume_tx w) transactions (Num 0, s)"

definition calculateEfficiencyScore ::
  "jsnum \<Rightarrow> jsnum \<Rightarrow> jsnum \<Rightarrow> SwapTransaction list \<Rightarrow> jsnum" where
  "calculateEfficiencyScore gasSavings totalSpent averageSlippage transactions =
     (let score0 = Num 100;
          score1 = (if js_gt totalSpent (Num 0)
                    then js_sub score0 (js_mul (js_div gasSavings totalSpent) (Num 50))
                    else score0);
          slippagePenalty = js_min (js_mul averageSlippage (Num 10)) (Num 30);
          score2 = js_sub score1 slippagePenalty;
          outdatedDexCount =
            length (filter (\<lambda>tx. includes_str (dex tx) ''V1'' \<or> includes_str (dex tx) ''SushiSwap'')
                      transactions);
          outdatedPenalty =
            js_mul (js_div (Num (of_nat outdatedDexCount)) (Num (of_nat (length transactions))))
                   (Num 20);
          score3 = js_sub score2 outdatedPenalty;
          uniqueDexes = length (remdups (map dex transactions));
          score4 = (if uniqueDexes \<le> 3 \<and> 5 < length transactions
                    then js_add score3 (Num 5) else score3)
      in js_max (Num 0) (js_min (Num 100) score4))"

definition calculateRoutingAnalysis :: "Comparison list \<Rightarrow> RoutingAnalysis" where
  "calculateRoutingAnalysis comparisons =
     (if comparisons = [] then
        \<lparr>optimalRoutes = 0, suboptimalRoutes = 0, missedOpportunities = [NoComparisonData]\<rparr>
      else
        let optimal = length (filter (\<lambda>c. js_le (gasDifference c) (Num 0)) comparisons);
            significantSavings = filter (\<lambda>c. js_gt (gasDifference c) (Num 50000)) comparisons;
            betterAmountOuts =
              filter (\<lambda>c. js_gt (optimalAmountOut c) (js_mul (actualAmountOut c) (Num (101 / 100))))
                comparisons;
            missed =
              (if 0 < length significantSavings
               then [CouldHaveSavedGas (length significantSavings)] else [])
              @ (if 0 < length betterAmountOuts
                 then [CouldHaveBetterRates (length betterAmountOuts)] else [])
        in \<lparr>optimalRoutes = optimal,
            suboptimalRoutes = length comparisons - optimal,
            missedOpportunities = (if missed = [] then [RoutingGenerallyOptimal] else missed)\<rparr>)"

definition generateComprehensiveRecommendations ::
  "SwapTransaction list \<Rightarrow> ComparisonResult \<Rightarrow> jsnum \<Rightarrow> jsnum \<Rightarrow> jsnum \<Rightarrow> recommendation list" where
  "generateComprehensiveRecommendations transactions comparison score averagePrice totalVolume =
     recommendations comparison
     @ (if js_lt score (Num 50) then [EfficiencyBelowAverage]
        else if js_lt score (Num 70) then [RoomForImprovement]
        else if js_ge score (Num 90) then [ExcellentEfficiency]
        else [])
     @ (if js_gt averagePrice (Num 100000000000) then [TimeLowerGasPeriods]
        else if js_lt averagePrice (Num 20000000000) then [GreatGasTiming]
        else [])
     @ (if js_gt totalVolume (Num 100000) then [HighVolumeTools]
        else if js_lt totalVolume (Num 1000) then [BatchSmallTrades]
        else [])
     @ (if length (remdups (map dex transactions)) = 1 then [DiversifyDexes] else [])
     @ (if 20 < length transactions then [ConsiderDCA] else [])"

text \<open>
  The report for the results of the two concurrent operations, from the test for an empty
  history on. The time range of a non-empty history maps the smallest and the largest
  time value (\<open>Math.min\<close> and \<open>Math.max\<close> over all of them) back to a date text.
\<close>

definition assembleReport ::
  "world \<Rightarrow> state \<Rightarrow> string \<Rightarrow> SwapTransaction list \<Rightarrow> ComparisonResult
     \<Rightarrow> (error + SwapReportData) \<times> state" where
  "assembleReport w s walletAddress transactions comparison =
     (if transactions = [] then
        (Inr \<lparr>report_success = True, report_wallet = walletAddress,
              reportGeneratedAt = now w,
              summary = \<lparr>totalSwaps = 0, totalVolumeUSD = Num 0, averageGasUsed = Num 0,
                          mostUsedDEX = ''N/A'', efficiencyScore = Num 0\<rparr>,
              gasAnalysis = \<lparr>totalGasSpent = Num 0, averageGasPrice = Num 0,
                              potentialSavings = Num 0, savingsPercentage = Num 0\<rparr>,
              routingAnalysis = \<lparr>optimalRoutes = 0, suboptimalRoutes = 0,
                                  missedOpportunities = [NoTransactionsFound]\<rparr>,
              report_recommendations = [StartMakingSwaps],
              timeRange = \<lparr>range_from = now w, range_to = now w\<rparr>\<rparr>, s)
      else
        (case calculateRealVolumeUSD w s transactions of (volume, s1) \<Rightarrow>
           let spent = foldl (\<lambda>sum tx. js_add sum (js_mul (gas_used tx) (gas_price tx)))
                         (Num 0) transactions;
               used = foldl (\<lambda>sum tx. js_add sum (gas_used tx)) (Num 0) transactions;
               averageUsed = js_round (js_div used (Num (of_nat (length transactions))));
               averagePrice = js_div spent used;
               mostUsed = (case mostUsedDex transactions of
                             None \<Rightarrow> ''Unknown''
                           | Some e \<Rightarrow> if fst e = [] then ''Unknown'' else fst e);
               score = calculateEfficiencyScore (gasSavingsPotential comparison) spent
                         (averageSlippageActual comparison) transactions;
               routing = calculateRoutingAnalysis (detailedComparisons comparison);
               recs = generateComprehensiveRecommendations transactions comparison score
                        averagePrice volume;
               times = map (\<lambda>tx. date_ms w (timestamp tx)) transactions;
               savings = js_max (Num 0) (gasSavingsPotential comparison);
               percentage = (if js_gt spent (Num 0)
                             then js_mul (js_div savings spent) (Num 100) else Num 0)
           in (Inr \<lparr>report_success = True, report_wallet = walletAddress,
                    reportGeneratedAt = now w,
                    summary = \<lparr>totalSwaps = length transactions,
                                totalVolumeUSD =
                                  js_div (js_round (js_mul volume (Num 100))) (Num 100),
                                averageGasUsed = averageUsed,
                                mostUsedDEX = mostUsed,
                                efficiencyScore = js_round score\<rparr>,
                    gasAnalysis = \<lparr>totalGasSpent = js_round spent,
                                    averageGasPrice = js_round averagePrice,
                                    potentialSavings = js_round savings,
                                    savingsPercentage =
                                      js_div (js_round (js_mul percentage (Num 100))) (Num 100)\<rparr>,
                    routingAnalysis = routing,
                    report_recommendations = recs,
                    timeRange = \<lparr>range_from = iso_of_ms w (fold min (tl times) (hd times)),
                                  range_to = iso_of_ms w (fold max (tl times) (hd times))\<rparr>\<rparr>,
               s1)))"

text \<open>
  \<open>Promise.all\<close> starts both operations before it awaits either, so the comparison runs
  and makes its requests also when the retrieval is rejected. The model runs the
  retrieval, then the comparison: the trace holds the requests of both, not their
  interleaving in time. When both are rejected the report carries the retrieval's error
  (\<open>Promise.all\<close> carries that of the first to be rejected).
\<close>

definition generateSwapReport ::
  "world \<Rightarrow> state \<Rightarrow> string \<Rightarrow> (error + SwapReportData) \<times> state" where
  "generateSwapReport w s walletAddress =
     (if walletAddress = [] \<or> \<not> startsWith walletAddress ''0x'' then (Inl InvalidFormat, s)
      else case getUserTransactions w s walletAddress 50 of (r1, s1) \<Rightarrow>
           case compareWithOneInch w s1 walletAddress of (r2, s2) \<Rightarrow>
           case r1 of
             Inl e \<Rightarrow> (Inl (ReportFailed e), s2)
           | Inr transactions \<Rightarrow>
               (case r2 of
                  Inl e \<Rightarrow> (Inl (ReportFailed e), s2)
                | Inr comparison \<Rightarrow>
                    assembleReport w s2 walletAddress transactions comparison))"

section \<open>Notions used in the statements\<close>

text \<open>
  A poll answer that keeps the loop going: a status that is neither the completed nor
  the failed state.
\<close>

fun is_pending :: "poll_response \<Rightarrow> bool" where
  "is_pending (PollError msg) = False"
| "is_pending (PollData st result) =
     (st \<noteq> ''QUERY_STATE_COMPLETED'' \<and> st \<noteq> ''QUERY_STATE_FAILED'')"

text \<open>The effects of the attempts \<open>a, ..., k - 1\<close> of the poll loop of query \<open>n\<close>.\<close>

definition attempt_events :: "nat \<Rightarrow> nat \<Rightarrow> nat \<Rightarrow> event list" where
  "attempt_events n a k = concat (map (\<lambda>i. [Sleep 2000, DunePoll n i]) [a..<k])"

text \<open>
  The \<open>n\<close>-th quote request, made for transaction \<open>tx\<close>, fails (with the rate-limit error
  or with any other).
\<close>

definition quote_fails :: "world \<Rightarrow> nat \<Rightarrow> SwapTransaction \<Rightarrow> bool" where
  "quote_fails w n tx =
     (case quote_api w n (quote_args_of tx) of QuoteOk d \<Rightarrow> False | _ \<Rightarrow> True)"

text \<open>
  The transactions that the comparison loop, started in state \<open>s\<close>, takes to the end of
  its body, each with the quote obtained for it: those that have both token addresses
  and whose quote request succeeds.
\<close>

fun compared :: "world \<Rightarrow> SwapTransaction list \<Rightarrow> state \<Rightarrow> (SwapTransaction \<times> OneInchQuote) list" where
  "compared w [] s = []"
| "compared w (tx # txs) s =
     (if from_token_address tx = [] \<or> to_token_address tx = [] then compared w txs s
      else case getOneInchQuote w s (quote_args_of tx) of
             (Inl e, s1) \<Rightarrow> compared w txs s1
           | (Inr quote, s1) \<Rightarrow> (tx, quote) # compared w txs (emit [Sleep 100] s1))"

definition actualGasOf :: "SwapTransaction \<times> OneInchQuote \<Rightarrow> jsnum" where
  "actualGasOf p = js_mul (gas_used (fst p)) (gas_price (fst p))"

definition optimalGasOf :: "SwapTransaction \<times> OneInchQuote \<Rightarrow> jsnum" where
  "optimalGasOf p = js_mul (estimatedGas (snd p)) (gas_price (fst p))"








section \<open>Example data\<close>

text \<open>
  One swap on Uniswap V2 that used 100000 gas at a gas price of 50, and a quote that
  estimates 80000 gas for it.
\<close>

definition row_a :: DuneSwapRow where
  "row_a =
     \<lparr>tx_hash = Some ''0xaa'', block_time = Some ''2024-01-01T00:00:00.000Z'',
      token_sold_symbol = Some ''WETH'', token_bought_symbol = Some ''USDC'',
      token_sold_address = Some ''0xC02aaA39b223FE8D0A0e5C4F27eAD9083C756Cc2'',
      token_bought_address = Some ''0xA0b86991c6218b36c1d19D4a2e9Eb0cE3606eB48'',
      token_sold_amount = Some (Num 1), token_bought_amount = Some (Num 2000),
      amount_usd = Some (Num 2000), row_gas_used = Some (Num 100000),
      row_gas_price = Some (Num 50), project = Some ''Uniswap V2''\<rparr>"

definition quote_a :: QuoteData where
  "quote_a =
     \<lparr>data_toAmount = Some (Num (2000 * 10 ^ 18)), data_toTokenAmount = None,
      data_estimatedGas = Some (Num 80000), data_gas = None, data_protocols = None\<rparr>"

definition parse_date :: "string \<Rightarrow> int" where
  "parse_date t =
     (if t = ''2024-01-01T00:00:00.000Z'' then 1704067200000
      else if t = ''2024-01-02T00:00:00.000Z'' then 1704153600000
      else 1706745600000)"

text \<open>
  A world with a credential, in which every query completes at its first poll with the
  one row, and every quote succeeds.
\<close>

definition world_a :: world where
  "world_a =
     \<lparr>api_key = Some ''key'',
      exec_api = (\<lambda>n a l. Inr ''01HQ''),
      poll_api = (\<lambda>n e k. PollData ''QUERY_STATE_COMPLETED'' (Some [row_a])),
      random = (\<lambda>n i. 0),
      now = ''2024-02-01T00:00:00.000Z'',
      date_ms = parse_date,
      iso_of_ms = (\<lambda>ms. if ms = 1704067200000 then ''2024-01-01T00:00:00.000Z''
                          else ''2024-01-02T00:00:00.000Z''),
      quote_api = (\<lambda>n a. QuoteOk quote_a),
      price_api = (\<lambda>n t. None)\<rparr>"


text \<open>
  Three more rows: a later swap, a swap at the time of \<open>row_a\<close>, and a row without a
  bought amount. \<open>world_b\<close> returns the four rows in the order a, z, b, c.
\<close>

definition row_b :: DuneSwapRow where
  "row_b = row_a\<lparr>tx_hash := Some ''0xbb'', block_time := Some ''2024-01-02T00:00:00.000Z'',
                 project := Some ''SushiSwap''\<rparr>"

definition row_c :: DuneSwapRow where
  "row_c = row_a\<lparr>tx_hash := Some ''0xcc'', project := Some ''SushiSwap''\<rparr>"



definition wallet_a :: string where
  "wallet_a = ''0x1111111111111111111111111111111111111111''"

text \<open>
  A world with five transactions, all with token addresses, in which the third quote
  request is answered with status 429.
\<close>

definition world_five :: world where
  "world_five =
     world_a\<lparr>poll_api :=
       (\<lambda>n e k. PollData ''QUERY_STATE_COMPLETED'' (Some [row_a, row_b, row_c, row_a, row_b])),
      quote_api :=
       (\<lambda>n a. if n = 2 then QuoteStatus 429 ''Request failed with status code 429''
               else QuoteOk quote_a)\<rparr>"









section \<open>The poll loop of the History Client\<close>



lemma trace_emit: "trace (emit es s) = trace s @ es"
  by (simp add: emit_def)


lemma attempt_events_self: "attempt_events n a a = []"
  by (simp add: attempt_events_def)

lemma poll_pending:
  "a < maxAttempts \<Longrightarrow> is_pending (poll_api w n eid a) \<Longrightarrow>
   poll w n eid a s = poll w n eid (Suc a) (emit [Sleep 2000, DunePoll n a] s)"
  by (subst poll.simps) (auto split: poll_response.splits simp: Let_def)




lemma poll_exhausted: "poll w n eid maxAttempts s = (Inl ExecutionTimeout, s)"
  by (subst poll.simps) simp

lemma poll_trace:
  "a \<le> maxAttempts \<Longrightarrow>
   \<exists>k. a \<le> k \<and> k \<le> maxAttempts \<and>
       trace (snd (poll w n eid a s)) = trace s @ attempt_events n a k"
proof (induction w n eid a s rule: poll.induct)
  case (1 w n eid a s)
  show ?case
  proof (cases "a < maxAttempts")
    case False
    with "1.prems" have "a = maxAttempts" by simp
    then show ?thesis
      by (auto simp: poll_exhausted attempt_events_self intro!: exI [of _ maxAttempts])
  next
    case lt: True
    let ?s1 = "emit [Sleep 2000, DunePoll n a] s"
    have one: "attempt_events n a (Suc a) = [Sleep 2000, DunePoll n a]"
      by (simp add: attempt_events_def)
    show ?thesis
    proof (cases "is_pending (poll_api w n eid a)")
      case True
      then obtain st result where r: "poll_api w n eid a = PollData st result"
        and st: "st \<noteq> ''QUERY_STATE_COMPLETED''" "st \<noteq> ''QUERY_STATE_FAILED''"
        by (cases "poll_api w n eid a") auto
      from "1.IH" [OF lt refl r st] lt
      obtain k where k: "Suc a \<le> k" "k \<le> maxAttempts"
        "trace (snd (poll w n eid (Suc a) ?s1)) = trace ?s1 @ attempt_events n (Suc a) k"
        by auto
      have "attempt_events n a k = [Sleep 2000, DunePoll n a] @ attempt_events n (Suc a) k"
        using k(1) by (simp add: attempt_events_def upt_conv_Cons)
      with k show ?thesis
        using poll_pending [OF lt True, of s]
        by (auto simp: trace_emit intro!: exI [of _ k])
    next
      case False
      then have "trace (snd (poll w n eid a s)) = trace s @ [Sleep 2000, DunePoll n a]"
        using lt by (subst poll.simps) (auto split: poll_response.splits simp: Let_def trace_emit)
      with lt one show ?thesis
        by (auto intro!: exI [of _ "Suc a"])
    qed
  qed
qed



section \<open>Transaction Retrieval: filtering and order\<close>






section \<open>Comparison Engine: totals and partial failure\<close>

lemma compare_loop_Nil: "compare_loop w [] vs = vs"
  by (simp add: compare_loop_def)

lemma compare_loop_Cons: "compare_loop w (tx # txs) vs = compare_loop w txs (compare_tx w tx vs)"
  by (simp add: compare_loop_def)

lemma compare_loop_vars:
  "compare_loop w txs (v, s) = (v', s') \<Longrightarrow>
   totalActualGas_v v' = foldl js_add (totalActualGas_v v) (map actualGasOf (compared w txs s))
   \<and> totalOptimalGas_v v' = foldl js_add (totalOptimalGas_v v) (map optimalGasOf (compared w txs s))
   \<and> map gasDifference (comparisons_v v') =
       map gasDifference (comparisons_v v)
       @ map (\<lambda>p. js_sub (actualGasOf p) (optimalGasOf p)) (compared w txs s)
   \<and> validComparisons_v v' = validComparisons_v v + length (compared w txs s)"
proof (induction txs arbitrary: v s)
  case Nil
  then show ?case by (simp add: compare_loop_Nil)
next
  case (Cons tx txs)
  show ?case
  proof (cases "from_token_address tx = [] \<or> to_token_address tx = []")
    case True
    with Cons.prems have "compare_loop w txs (v, s) = (v', s')"
      by (simp add: compare_loop_Cons compare_tx_def)
    from Cons.IH [OF this] True show ?thesis by simp
  next
    case False
    obtain r s1 where q: "getOneInchQuote w s (quote_args_of tx) = (r, s1)"
      by (cases "getOneInchQuote w s (quote_args_of tx)")
    show ?thesis
    proof (cases r)
      case (Inl e)
      with Cons.prems False q have "compare_loop w txs (v, s1) = (v', s')"
        by (simp add: compare_loop_Cons compare_tx_def)
      from Cons.IH [OF this] False q Inl show ?thesis by simp
    next
      case (Inr quote)
      define v1 where "v1 = fst (compare_tx w tx (v, s))"
      from Cons.prems False q Inr have "compare_loop w txs (v1, emit [Sleep 100] s1) = (v', s')"
        by (simp add: compare_loop_Cons compare_tx_def v1_def Let_def)
      from Cons.IH [OF this] False q Inr show ?thesis
        by (simp add: v1_def compare_tx_def Let_def actualGasOf_def optimalGasOf_def)
    qed
  qed
qed

lemma js_max_not_negative: "\<not> js_lt (js_max (Num 0) x) (Num 0)"
  by (cases x) (simp_all add: js_max_def js_lt_def)

lemma js_max_finite:
  "js_max (Num 0) (js_sub (Num a) (Num b)) = Num (max 0 (a - b))"
  by (simp add: js_max_def js_sub_def max_def)

lemma compareWithOneInch_Inr:
  assumes "compareWithOneInch w s walletAddress = (Inr r, s')"
  obtains txs s1 v where
    "getDuneData w s walletAddress 10 = (Inr txs, s1)"
    "compare_loop w txs (loop_vars0, s1) = (v, s')"
    "totalActualGas r = totalActualGas_v v"
    "totalOptimalGas r = totalOptimalGas_v v"
    "detailedComparisons r = comparisons_v v"
    "gasSavingsPotential r = js_max (Num 0) (js_sub (totalActualGas_v v) (totalOptimalGas_v v))"
    "totalTransactions r = length txs"
proof -
  from assms obtain txs s1 where d: "getDuneData w s walletAddress 10 = (Inr txs, s1)"
    by (auto simp: compareWithOneInch_def split: if_splits prod.splits sum.splits)
  show thesis
  proof (cases "txs = []")
    case True
    with assms d have "s' = s1" and "r = \<lparr>success = True, wallet = walletAddress, totalTransactions = 0,
                       totalActualGas = Num 0, totalOptimalGas = Num 0,
                       gasSavingsPotential = Num 0, averageSlippageActual = Num 0,
                       recommendations = [NoTransactionsForAnalysis],
                       detailedComparisons = []\<rparr>"
      by (auto simp: compareWithOneInch_def split: if_splits)
    with True d show thesis
      by (intro that [of txs s1 loop_vars0])
         (simp_all add: compare_loop_Nil loop_vars0_def js_max_def js_sub_def)
  next
    case False
    obtain v s2 where l: "compare_loop w txs (loop_vars0, s1) = (v, s2)"
      by (cases "compare_loop w txs (loop_vars0, s1)")
    with assms d False show thesis
      by (intro that [of txs s1 v])
         (auto simp: compareWithOneInch_def Let_def split: if_splits)
  qed
qed

text \<open>
  Claim C3. Whenever the Comparison Engine returns a result, its two totals are the sums,
  over the transactions it compared, of \<open>gas_used * gas_price\<close> and of
  \<open>estimatedGas * gas_price\<close>; each comparison record holds the difference of the two
  for its own transaction; and the savings potential is \<open>Math.max(0, totalActualGas -
  totalOptimalGas)\<close>, which is never less than zero and, for finite totals, is the
  maximum of 0 and their difference. In particular, when the history is one transaction
  with gas_used 100000 and gas_price 50 whose quote estimates 80000 gas, the totals are
  5000000 and 4000000 and the savings potential is 1000000.
\<close>

theorem compare_gas_totals:
  "(\<forall>r s'. compareWithOneInch w s walletAddress = (Inr r, s') \<longrightarrow>
      (\<exists>txs s1. getDuneData w s walletAddress 10 = (Inr txs, s1)
         \<and> totalActualGas r = sum_js (map actualGasOf (compared w txs s1))
         \<and> totalOptimalGas r = sum_js (map optimalGasOf (compared w txs s1))
         \<and> map gasDifference (detailedComparisons r) =
             map (\<lambda>p. js_sub (actualGasOf p) (optimalGasOf p)) (compared w txs s1))
      \<and> gasSavingsPotential r = js_max (Num 0) (js_sub (totalActualGas r) (totalOptimalGas r))
      \<and> \<not> js_lt (gasSavingsPotential r) (Num 0)
      \<and> (\<forall>a b. totalActualGas r = Num a \<and> totalOptimalGas r = Num b \<longrightarrow>
             gasSavingsPotential r = Num (max 0 (a - b))))
   \<and> (\<forall>tx quote s1 s2.
         startsWith walletAddress ''0x''
         \<and> getDuneData w s walletAddress 10 = (Inr [tx], s1)
         \<and> from_token_address tx \<noteq> [] \<and> to_token_address tx \<noteq> []
         \<and> getOneInchQuote w s1 (quote_args_of tx) = (Inr quote, s2)
         \<and> gas_used tx = Num 100000 \<and> gas_price tx = Num 50
         \<and> estimatedGas quote = Num 80000 \<longrightarrow>
         (\<exists>r s'. compareWithOneInch w s walletAddress = (Inr r, s')
            \<and> totalActualGas r = Num 5000000 \<and> totalOptimalGas r = Num 4000000
            \<and> gasSavingsPotential r = Num 1000000))"
proof (intro conjI allI impI)
  fix r s'
  assume run: "compareWithOneInch w s walletAddress = (Inr r, s')"
  from run obtain txs s1 v where
    d: "getDuneData w s walletAddress 10 = (Inr txs, s1)"
    and l: "compare_loop w txs (loop_vars0, s1) = (v, s')"
    and r: "totalActualGas r = totalActualGas_v v" "totalOptimalGas r = totalOptimalGas_v v"
      "detailedComparisons r = comparisons_v v"
      "gasSavingsPotential r = js_max (Num 0) (js_sub (totalActualGas_v v) (totalOptimalGas_v v))"
    by (rule compareWithOneInch_Inr)
  from compare_loop_vars [OF l] d r
  show "\<exists>txs s1. getDuneData w s walletAddress 10 = (Inr txs, s1)
         \<and> totalActualGas r = sum_js (map actualGasOf (compared w txs s1))
         \<and> totalOptimalGas r = sum_js (map optimalGasOf (compared w txs s1))
         \<and> map gasDifference (detailedComparisons r) =
             map (\<lambda>p. js_sub (actualGasOf p) (optimalGasOf p)) (compared w txs s1)"
    by (simp add: sum_js_def loop_vars0_def)
  from r show g: "gasSavingsPotential r = js_max (Num 0) (js_sub (totalActualGas r) (totalOptimalGas r))"
    by simp
  then show "\<not> js_lt (gasSavingsPotential r) (Num 0)"
    by (simp add: js_max_not_negative)
  fix a b
  assume "totalActualGas r = Num a \<and> totalOptimalGas r = Num b"
  with g show "gasSavingsPotential r = Num (max 0 (a - b))"
    by (simp add: js_max_finite)
next
  fix tx quote s1 s2
  assume h: "startsWith walletAddress ''0x''
         \<and> getDuneData w s walletAddress 10 = (Inr [tx], s1)
         \<and> from_token_address tx \<noteq> [] \<and> to_token_address tx \<noteq> []
         \<and> getOneInchQuote w s1 (quote_args_of tx) = (Inr quote, s2)
         \<and> gas_used tx = Num 100000 \<and> gas_price tx = Num 50
         \<and> estimatedGas quote = Num 80000"
  then have "walletAddress \<noteq> []"
    by (auto simp: startsWith_def)
  with h show "\<exists>r s'. compareWithOneInch w s walletAddress = (Inr r, s')
            \<and> totalActualGas r = Num 5000000 \<and> totalOptimalGas r = Num 4000000
            \<and> gasSavingsPotential r = Num 1000000"
    by (simp add: compareWithOneInch_def compare_loop_def compare_tx_def Let_def
          loop_vars0_def js_max_def js_sub_def)
qed

text \<open>The example of the claim, in \<open>world_a\<close> for the wallet of forty ones.\<close>

theorem compare_gas_totals_witness:
  "\<exists>r s'. compareWithOneInch world_a init wallet_a = (Inr r, s')
     \<and> totalActualGas r = Num 5000000 \<and> totalOptimalGas r = Num 4000000
     \<and> gasSavingsPotential r = Num 1000000
     \<and> gasSavingsPotential r = js_max (Num 0) (js_sub (totalActualGas r) (totalOptimalGas r))
     \<and> \<not> js_lt (gasSavingsPotential r) (Num 0)"
proof -
  let ?s1 = "emit [DuneExecute 0, Sleep 2000, DunePoll 0 0] (init\<lparr>dune_calls := 1\<rparr>)"
  let ?tx = "mapRow world_a 0 0 row_a"
  note t = compare_gas_totals [of world_a init wallet_a]
  have d: "getDuneData world_a init wallet_a 10 = (Inr [?tx], ?s1)"
    by code_simp
  obtain quote s2 where q: "getOneInchQuote world_a ?s1 (quote_args_of ?tx) = (Inr quote, s2)"
    and e: "estimatedGas quote = Num 80000"
    by (simp add: getOneInchQuote_def world_a_def quote_a_def Let_def)
  have f: "startsWith wallet_a ''0x''" "from_token_address ?tx \<noteq> []" "to_token_address ?tx \<noteq> []"
    "gas_used ?tx = Num 100000" "gas_price ?tx = Num 50"
    by (simp_all add: wallet_a_def startsWith_def mapRow_def row_a_def)
  from t d q e f
  obtain r s' where r: "compareWithOneInch world_a init wallet_a = (Inr r, s')"
    "totalActualGas r = Num 5000000" "totalOptimalGas r = Num 4000000"
    "gasSavingsPotential r = Num 1000000"
    by blast
  from t r(1)
  have "gasSavingsPotential r = js_max (Num 0) (js_sub (totalActualGas r) (totalOptimalGas r))"
    and "\<not> js_lt (gasSavingsPotential r) (Num 0)"
    by blast+
  with r show ?thesis by blast
qed


subsection \<open>A failed quote does not end the loop\<close>

lemma getOneInchQuote_calls:
  "quote_calls (snd (getOneInchQuote w s args)) = Suc (quote_calls s)"
  by (simp add: getOneInchQuote_def Let_def emit_def split: quote_http.splits)

lemma getOneInchQuote_fails:
  "(\<exists>e. fst (getOneInchQuote w s (quote_args_of tx)) = Inl e) = quote_fails w (quote_calls s) tx"
  by (simp add: getOneInchQuote_def Let_def quote_fails_def split: quote_http.splits)

lemma length_filter_upt_Suc:
  "length (filter P [0..<Suc n]) = (if P 0 then 1 else 0) + length (filter (\<lambda>i. P (Suc i)) [0..<n])"
proof -
  have "[0..<Suc n] = 0 # map Suc [0..<n]"
    by (simp add: upt_conv_Cons map_Suc_upt del: upt_Suc)
  then show ?thesis
    by (simp add: filter_map comp_def del: upt_Suc)
qed

lemma compare_loop_count:
  "\<forall>tx\<in>set txs. from_token_address tx \<noteq> [] \<and> to_token_address tx \<noteq> [] \<Longrightarrow>
   length (comparisons_v (fst (compare_loop w txs (v, s)))) =
     length (comparisons_v v)
     + length (filter (\<lambda>i. \<not> quote_fails w (quote_calls s + i) (txs ! i)) [0..<length txs])"
proof (induction txs arbitrary: v s)
  case Nil
  then show ?case by (simp add: compare_loop_Nil)
next
  case (Cons tx txs)
  then have addr: "from_token_address tx \<noteq> []" "to_token_address tx \<noteq> []"
    and rest: "\<forall>tx\<in>set txs. from_token_address tx \<noteq> [] \<and> to_token_address tx \<noteq> []"
    by simp_all
  obtain r s1 where q: "getOneInchQuote w s (quote_args_of tx) = (r, s1)"
    by (cases "getOneInchQuote w s (quote_args_of tx)")
  from getOneInchQuote_calls [of w s "quote_args_of tx"] q
  have calls: "quote_calls s1 = Suc (quote_calls s)" by simp
  from getOneInchQuote_fails [of w s tx] q
  have fails: "quote_fails w (quote_calls s) tx = (\<exists>e. r = Inl e)" by simp
  obtain v1 s1' where step: "compare_tx w tx (v, s) = (v1, s1')"
    by (cases "compare_tx w tx (v, s)")
  with addr q calls have calls': "quote_calls s1' = Suc (quote_calls s)"
    by (cases r) (auto simp: compare_tx_def Let_def emit_def)
  from step addr q fails
  have len: "length (comparisons_v v1) =
      length (comparisons_v v) + (if \<not> quote_fails w (quote_calls s) tx then 1 else 0)"
    by (cases r) (auto simp: compare_tx_def Let_def)
  have "length (comparisons_v (fst (compare_loop w (tx # txs) (v, s)))) =
      length (comparisons_v (fst (compare_loop w txs (v1, s1'))))"
    by (simp add: compare_loop_Cons step)
  also have "\<dots> = length (comparisons_v v1)
     + length (filter (\<lambda>i. \<not> quote_fails w (quote_calls s1' + i) (txs ! i)) [0..<length txs])"
    by (rule Cons.IH [OF rest])
  finally show ?case
    using len calls'
    by (simp add: length_filter_upt_Suc del: upt_Suc)
qed

text \<open>
  Claim C6. When the history has five transactions, all with both token addresses, and
  exactly one of the five quote requests fails, the Comparison Engine returns a result
  (it does not throw) whose detailedComparisons has length 4. The \<open>i\<close>-th transaction's
  request is the one numbered \<open>quote_calls s1 + i\<close>.
\<close>

theorem one_failed_quote_of_five:
  assumes "startsWith walletAddress ''0x''"
    and "getDuneData w s walletAddress 10 = (Inr txs, s1)"
    and "length txs = 5"
    and "\<forall>tx\<in>set txs. from_token_address tx \<noteq> [] \<and> to_token_address tx \<noteq> []"
    and "length (filter (\<lambda>i. quote_fails w (quote_calls s1 + i) (txs ! i)) [0..<5]) = 1"
  shows "\<exists>r s'. compareWithOneInch w s walletAddress = (Inr r, s')
           \<and> length (detailedComparisons r) = 4 \<and> totalTransactions r = 5"
proof -
  from assms(1) have w: "walletAddress \<noteq> []"
    by (auto simp: startsWith_def)
  from assms(3) have ne: "txs \<noteq> []" by auto
  obtain v s2 where l: "compare_loop w txs (loop_vars0, s1) = (v, s2)"
    by (cases "compare_loop w txs (loop_vars0, s1)")
  have "length (filter (\<lambda>i. \<not> quote_fails w (quote_calls s1 + i) (txs ! i)) [0..<5])
        + length (filter (\<lambda>i. quote_fails w (quote_calls s1 + i) (txs ! i)) [0..<5])
        = length [0..<5::nat]"
    by (subst add.commute) (rule sum_length_filter_compl)
  with assms(5)
  have four: "length (filter (\<lambda>i. \<not> quote_fails w (quote_calls s1 + i) (txs ! i)) [0..<5]) = 4"
    by simp
  from compare_loop_count [OF assms(4), of w loop_vars0 s1] l assms(3) four
  have "length (comparisons_v v) = 4"
    by (simp add: loop_vars0_def)
  with assms(1,2,3) w ne l show ?thesis
    by (simp add: compareWithOneInch_def Let_def)
qed

text \<open>In \<open>world_five\<close> the third of five quote requests is rate-limited.\<close>

theorem one_failed_quote_of_five_witness:
  "\<exists>r s'. compareWithOneInch world_five init wallet_a = (Inr r, s')
     \<and> length (detailedComparisons r) = 4 \<and> totalTransactions r = 5"
proof -
  let ?s1 = "emit [DuneExecute 0, Sleep 2000, DunePoll 0 0] (init\<lparr>dune_calls := 1\<rparr>)"
  let ?txs = "mapRows world_five 0 [row_a, row_b, row_c, row_a, row_b]"
  have "startsWith wallet_a ''0x''"
    by code_simp
  moreover have "getDuneData world_five init wallet_a 10 = (Inr ?txs, ?s1)"
    by code_simp
  moreover have "length ?txs = 5"
    by (simp add: mapRows_def)
  moreover have "\<forall>tx\<in>set ?txs. from_token_address tx \<noteq> [] \<and> to_token_address tx \<noteq> []"
    by code_simp
  moreover have "length (filter (\<lambda>i. quote_fails world_five (quote_calls ?s1 + i) (?txs ! i)) [0..<5]) = 1"
    by code_simp
  ultimately show ?thesis
    by (rule one_failed_quote_of_five)
qed

section \<open>Validation of the wallet identifier\<close>

text \<open>
  What the three operations share: an identifier that does not start with \<open>0x\<close> is
  rejected in the state in which it arrived, so before any request. Only Transaction
  Retrieval goes on to test the length.
\<close>

lemma invalid_prefix_rejected:
  assumes "\<not> startsWith walletAddress ''0x''"
  shows "getUserTransactions w s walletAddress limit = (Inl InvalidFormat, s)"
    and "compareWithOneInch w s walletAddress = (Inl InvalidFormat, s)"
    and "generateSwapReport w s walletAddress = (Inl InvalidFormat, s)"
  using assms
  by (simp_all add: getUserTransactions_def compareWithOneInch_def generateSwapReport_def)

lemma invalid_length_rejected_by_retrieval:
  assumes "startsWith walletAddress ''0x''" and "length walletAddress \<noteq> 42"
  shows "getUserTransactions w s walletAddress limit = (Inl InvalidLength, s)"
  using assms by (auto simp: getUserTransactions_def startsWith_def)

text \<open>
  The Comparison Engine has no length test: whatever the length of an identifier that
  starts with \<open>0x\<close>, and with a credential configured, it does not fail with a
  validation error, and the first thing it does is to submit the query.
\<close>

lemma compare_tx_trace:
  "\<exists>es. trace (snd (compare_tx w tx (v, s))) = trace s @ es"
  by (auto simp: compare_tx_def getOneInchQuote_def Let_def emit_def
           split: quote_http.splits)

lemma compare_loop_trace:
  "\<exists>es. trace (snd (compare_loop w txs (v, s))) = trace s @ es"
proof (induction txs arbitrary: v s)
  case Nil
  then show ?case by (simp add: compare_loop_Nil)
next
  case (Cons tx txs)
  obtain v1 s1 where step: "compare_tx w tx (v, s) = (v1, s1)"
    by (cases "compare_tx w tx (v, s)")
  from compare_tx_trace [of w tx v s] step obtain es where "trace s1 = trace s @ es"
    by auto
  moreover from Cons.IH [of v1 s1] obtain es' where
    "trace (snd (compare_loop w txs (v1, s1))) = trace s1 @ es'" ..
  ultimately show ?case
    by (simp add: compare_loop_Cons step)
qed

lemma getDuneData_trace:
  assumes "str_or (api_key w) [] \<noteq> []"
  shows "\<exists>es. trace (snd (getDuneData w s walletAddress limit))
           = trace s @ DuneExecute (dune_calls s) # es"
proof -
  let ?n = "dune_calls s"
  let ?s1 = "emit [DuneExecute ?n] (s\<lparr>dune_calls := ?n + 1\<rparr>)"
  show ?thesis
  proof (cases "exec_api w ?n walletAddress limit")
    case (Inl msg)
    with assms show ?thesis
      by (simp add: getDuneData_def Let_def emit_def)
  next
    case (Inr eid)
    from poll_trace [of 0 w ?n eid ?s1] obtain k where
      "trace (snd (poll w ?n eid 0 ?s1)) = trace ?s1 @ attempt_events ?n 0 k"
      by auto
    with assms Inr show ?thesis
      by (cases "poll w ?n eid 0 ?s1") (auto simp: getDuneData_def Let_def emit_def split: sum.splits)
  qed
qed

lemma comparison_accepts_any_length:
  assumes "startsWith walletAddress ''0x''" and "str_or (api_key w) [] \<noteq> []"
  shows "fst (compareWithOneInch w s walletAddress) \<noteq> Inl InvalidFormat"
    and "fst (compareWithOneInch w s walletAddress) \<noteq> Inl InvalidLength"
    and "\<exists>es. trace (snd (compareWithOneInch w s walletAddress))
           = trace s @ DuneExecute (dune_calls s) # es"
proof -
  from assms(1) have ne: "walletAddress \<noteq> []"
    by (auto simp: startsWith_def)
  obtain r s1 where d: "getDuneData w s walletAddress 10 = (r, s1)"
    by (cases "getDuneData w s walletAddress 10")
  from getDuneData_trace [OF assms(2), of s walletAddress 10] d
  obtain es where es: "trace s1 = trace s @ DuneExecute (dune_calls s) # es"
    by auto
  show "fst (compareWithOneInch w s walletAddress) \<noteq> Inl InvalidFormat"
    and "fst (compareWithOneInch w s walletAddress) \<noteq> Inl InvalidLength"
    using assms(1) ne d
    by (auto simp: compareWithOneInch_def Let_def split: sum.splits prod.splits)
  show "\<exists>es. trace (snd (compareWithOneInch w s walletAddress))
           = trace s @ DuneExecute (dune_calls s) # es"
  proof (cases r)
    case (Inl e)
    with assms(1) ne d es show ?thesis
      by (simp add: compareWithOneInch_def)
  next
    case (Inr txs)
    obtain es' where "trace (snd (compare_loop w txs (loop_vars0, s1))) = trace s1 @ es'"
      using compare_loop_trace [of w txs loop_vars0 s1] ..
    with assms(1) ne d es Inr show ?thesis
      by (cases "compare_loop w txs (loop_vars0, s1)")
         (auto simp: compareWithOneInch_def Let_def)
  qed
qed

text \<open>
  Claim C1, at the identifier \<open>0x123\<close> (prefix right, five characters). Transaction
  Retrieval rejects it with the length error and no request. The Comparison Engine has
  no length test: it submits the query, polls, asks for a quote and returns a result.
  The Report Generator is rejected with the wrapped length error of its retrieval, but
  its comparison is started beside the retrieval and makes the same requests.
\<close>

theorem short_wallet_reaches_network:
  "startsWith ''0x123'' ''0x'' \<and> length ''0x123'' = 5
   \<and> getUserTransactions world_a init ''0x123'' 10 = (Inl InvalidLength, init)
   \<and> compareWithOneInch world_a init ''0x123'' =
       (Inr \<lparr>success = True, wallet = ''0x123'', totalTransactions = 1,
              totalActualGas = Num 5000000, totalOptimalGas = Num 4000000,
              gasSavingsPotential = Num 1000000, averageSlippageActual = Num 0,
              recommendations =
                [UseAggregatorForGas, PotentialGasSavings (Num (1 / 1000)) (Num 20),
                 UpgradeToUniswapV3, ManySuboptimalRoutes, HighValueTrades],
              detailedComparisons =
                [\<lparr>txHash = ''0xaa'', actualRoute = ''Uniswap V2'',
                   optimalRoute = ''1inch Aggregated'', gasDifference = Num 1000000,
                   slippageDifference = Num 0, actualAmountOut = Num 2000,
                   optimalAmountOut = Num 2000\<rparr>]\<rparr>,
        \<lparr>dune_calls = 1, quote_calls = 1, price_calls = 0,
           trace = [DuneExecute 0, Sleep 2000, DunePoll 0 0, QuoteCall 0, Sleep 100]\<rparr>)
   \<and> list_ex is_network (trace (snd (compareWithOneInch world_a init ''0x123'')))
   \<and> generateSwapReport world_a init ''0x123'' =
       (Inl (ReportFailed InvalidLength),
        \<lparr>dune_calls = 1, quote_calls = 1, price_calls = 0,
           trace = [DuneExecute 0, Sleep 2000, DunePoll 0 0, QuoteCall 0, Sleep 100]\<rparr>)"
  by code_simp

section \<open>Comparison Engine: which transactions it reads\<close>






section \<open>The recommendation algorithm and the order of the transactions\<close>









lemma mostUsedDex_Nil: "mostUsedDex [] = None"
  by (simp add: mostUsedDex_def dexUsage_def js_sort_def)








section \<open>Report Generator: the gas statistics\<close>

















section \<open>Report Generator: the efficiency score\<close>







subsection \<open>The mean slippage of a comparison is finite\<close>













section \<open>Report Generator: what depends on the random slippage\<close>






























end
